theory Spec2Isabelle
  imports Complex_Main
begin

section \<open>Python values shared by the modules\<close>

text \<open>
  The Python exceptions that the modelled code can meet. The string is the text that
  \<^verbatim>\<open>str(e)\<close> yields, which \<^verbatim>\<open>load_video\<close> puts on the screen.
  \<open>ExternalError\<close> stands for any exception raised inside GStreamer, GPIO, the RFID
  driver or the file system.
\<close>

datatype py_exn =
    AttributeError string
  | FileNotFoundError string
  | ExternalError string

fun str_exn :: "py_exn \<Rightarrow> string" where
  "str_exn (AttributeError m) = m"
| "str_exn (FileNotFoundError m) = m"
| "str_exn (ExternalError m) = m"

text \<open>
  A name between single quotes, as Python prints it in the text of an
  \<^verbatim>\<open>AttributeError\<close>, and that text for a missing attribute of an object of a class.
\<close>

definition quoted :: "string \<Rightarrow> string" where
  "quoted name = CHR 0x27 # name @ [CHR 0x27]"

definition no_attribute :: "string \<Rightarrow> string \<Rightarrow> py_exn" where
  "no_attribute class_name attr =
     AttributeError (quoted class_name @ '' object has no attribute '' @ quoted attr)"

text \<open>Python's \<^verbatim>\<open>str\<close> on an integer: decimal digits, a leading minus sign.\<close>

definition digit_char :: "nat \<Rightarrow> char" where
  "digit_char d = ''0123456789'' ! d"

fun str_nat :: "nat \<Rightarrow> string" where
  "str_nat n =
     (if n < 10 then [digit_char n] else str_nat (n div 10) @ [digit_char (n mod 10)])"

definition str_int :: "int \<Rightarrow> string" where
  "str_int i = (if i < 0 then CHR ''-'' # str_nat (nat (- i)) else str_nat (nat i))"

text \<open>Truthiness of an optional string: \<^verbatim>\<open>None\<close> and \<^verbatim>\<open>""\<close> are false.\<close>

fun truthy :: "string option \<Rightarrow> bool" where
  "truthy None = False"
| "truthy (Some s) = (s \<noteq> [])"

section \<open>rfid\_reader.py\<close>

text \<open>
  The fields of \<^verbatim>\<open>RFIDReader\<close> that \<^verbatim>\<open>read_tag\<close> reads and writes. Times are the
  seconds of \<^verbatim>\<open>time.time()\<close>, taken as real numbers.
\<close>

record rfid_reader =
  is_connected :: bool
  last_read_time :: real
  last_tag_id :: "string option"

text \<open>
  One call of \<^verbatim>\<open>self.reader.read_no_block()\<close>: no tag in the field, the id of a tag,
  or an exception. After an exception \<^verbatim>\<open>read_tag\<close> calls \<^verbatim>\<open>initialize_reader\<close>;
  the flag says whether \<^verbatim>\<open>SimpleMFRC522()\<close> succeeds then.
\<close>

datatype rfid_poll = NoTag | TagRead int | ReadRaises bool

definition initialize_reader :: "bool \<Rightarrow> rfid_reader \<Rightarrow> rfid_reader" where
  "initialize_reader hardware_ok r = r\<lparr>is_connected := hardware_ok\<rparr>"

definition new_rfid_reader :: "bool \<Rightarrow> rfid_reader" where
  "new_rfid_reader hardware_ok =
     initialize_reader hardware_ok
       \<lparr>is_connected = False, last_read_time = 0, last_tag_id = None\<rparr>"

definition read_tag :: "real \<Rightarrow> rfid_poll \<Rightarrow> rfid_reader \<Rightarrow> string option \<times> rfid_reader" where
  "read_tag current_time poll r =
     (if \<not> is_connected r then (None, r)
      else if current_time - last_read_time r < 1 then (None, r)
      else (case poll of
              ReadRaises hardware_ok \<Rightarrow> (None, initialize_reader hardware_ok r)
            | NoTag \<Rightarrow> (None, r)
            | TagRead i \<Rightarrow>
                (let r1 = r\<lparr>last_read_time := current_time\<rparr>;
                     tag_id = str_int i
                 in if Some tag_id \<noteq> last_tag_id r1
                    then (Some tag_id, r1\<lparr>last_tag_id := Some tag_id\<rparr>)
                    else (None, r1))))"

text \<open>
  A run of the scan timer: \<^verbatim>\<open>read_tag\<close> is called once per tick, each tick with its
  clock reading and with what the reader hardware would answer. The results are
  collected in order.
\<close>

fun read_tags :: "(real \<times> rfid_poll) list \<Rightarrow> rfid_reader \<Rightarrow> string option list \<times> rfid_reader" where
  "read_tags [] r = ([], r)"
| "read_tags ((t, poll) # ticks) r =
     (let (res, r1) = read_tag t poll r;
          (ress, r2) = read_tags ticks r1
      in (res # ress, r2))"

text \<open>
  A tick at which the reader hardware shows no tag other than \<open>T\<close>: it sees nothing,
  or the tag \<open>T\<close>, or the read raises.
\<close>

fun presents_only :: "int \<Rightarrow> rfid_poll \<Rightarrow> bool" where
  "presents_only T NoTag = True"
| "presents_only T (TagRead i) = (i = T)"
| "presents_only T (ReadRaises hardware_ok) = True"

section \<open>battery\_monitor.py\<close>

record battery_monitor =
  battery_level :: int

text \<open>
  One call of \<^verbatim>\<open>GPIO.input(self.battery_pin)\<close>: a raw value, or an exception (which
  includes the missing attribute \<^verbatim>\<open>battery_pin\<close> when \<^verbatim>\<open>initialize_monitor\<close>
  failed before assigning it).
\<close>

datatype gpio_read = GpioValue int | GpioRaises

definition new_battery_monitor :: battery_monitor where
  "new_battery_monitor = \<lparr>battery_level = 100\<rparr>"

text \<open>Python's \<^verbatim>\<open>int\<close> on a float truncates towards zero.\<close>

definition py_int :: "real \<Rightarrow> int" where
  "py_int x = (if 0 \<le> x then \<lfloor>x\<rfloor> else \<lceil>x\<rceil>)"

text \<open>
  \<^verbatim>\<open>_convert_to_percentage\<close>, with the float arithmetic of the source read as exact
  arithmetic on real numbers. An integer too large for a float makes the division of
  the source raise inside the \<^verbatim>\<open>try\<close> block of \<^verbatim>\<open>get_level\<close>; such a read is a
  failing read, \<open>GpioRaises\<close>.
\<close>

definition convert_to_percentage :: "int \<Rightarrow> int" where
  "convert_to_percentage raw_value =
     (let min_value = 0 :: int;
          max_value = 1023 :: int;
          percentage = (real_of_int (raw_value - min_value) / real_of_int (max_value - min_value)) * 100
      in max 0 (min 100 (py_int percentage)))"

definition get_level :: "gpio_read \<Rightarrow> battery_monitor \<Rightarrow> int \<times> battery_monitor" where
  "get_level rd b =
     (case rd of
        GpioValue raw_value \<Rightarrow>
          (let b1 = b\<lparr>battery_level := convert_to_percentage raw_value\<rparr>
           in (battery_level b1, b1))
      | GpioRaises \<Rightarrow> (battery_level b, b))"

text \<open>A sequence of reads, each with what the hardware answers; the returned levels in order.\<close>

fun get_levels :: "gpio_read list \<Rightarrow> battery_monitor \<Rightarrow> int list \<times> battery_monitor" where
  "get_levels [] b = ([], b)"
| "get_levels (rd # rds) b =
     (let (lvl, b1) = get_level rd b;
          (lvls, b2) = get_levels rds b1
      in (lvl # lvls, b2))"

text \<open>
  The raw value of the most recent successful read in a sequence of reads, if there is
  one.
\<close>

fun last_good :: "gpio_read list \<Rightarrow> int option" where
  "last_good [] = None"
| "last_good (rd # rds) =
     (case last_good rds of
        Some v \<Rightarrow> Some v
      | None \<Rightarrow> (case rd of GpioValue v \<Rightarrow> Some v | GpioRaises \<Rightarrow> None))"

section \<open>button\_controller.py\<close>

text \<open>
  The part of the configuration file that the modelled code reads: the button pins
  (a JSON object, so an association list in file order), the tag bindings and the
  software debounce time of the buttons.
\<close>

record tag_binding =
  tag_id :: string
  video_path :: string

record app_config =
  gpio_pins :: "(string \<times> int) list"
  rfid_tags :: "tag_binding list"
  button_debounce_time :: real

text \<open>
  The dictionaries of \<^verbatim>\<open>ButtonController\<close>. A pin level is a boolean: \<^verbatim>\<open>GPIO.input\<close>
  yields 1 or 0, which Python compares equal to \<^verbatim>\<open>True\<close> and \<^verbatim>\<open>False\<close>. The
  registered callbacks are kept by name, and \<open>fired\<close> logs the calls made to them.
\<close>

record button_controller =
  buttons :: "string \<Rightarrow> int option"
  button_states :: "string \<Rightarrow> bool option"
  last_press_times :: "string \<Rightarrow> real option"
  callbacks :: "string set"
  fired :: "(string \<times> bool) list"

datatype gpio_op = SetMode | Setup int | AddEventDetect int

datatype pin_read = PinLevel bool | PinRaises

text \<open>
  The loop of \<^verbatim>\<open>initialize_buttons\<close>. \<open>fails\<close> tells which GPIO calls raise; the
  first exception leaves the loop, and what was stored before it stays.
\<close>

fun configure_buttons :: "(gpio_op \<Rightarrow> bool) \<Rightarrow> (string \<times> int) list \<Rightarrow> button_controller \<Rightarrow> button_controller" where
  "configure_buttons fails [] c = c"
| "configure_buttons fails ((button_name, pin) # rest) c =
     (if fails (Setup pin) then c
      else
        (let c1 = c\<lparr>buttons := (buttons c)(button_name \<mapsto> pin),
                     button_states := (button_states c)(button_name \<mapsto> True),
                     last_press_times := (last_press_times c)(button_name \<mapsto> 0)\<rparr>
         in if fails (AddEventDetect pin) then c1 else configure_buttons fails rest c1))"

definition initialize_buttons :: "(gpio_op \<Rightarrow> bool) \<Rightarrow> app_config \<Rightarrow> button_controller \<Rightarrow> button_controller" where
  "initialize_buttons fails cfg c =
     (if fails SetMode then c else configure_buttons fails (gpio_pins cfg) c)"

definition new_button_controller :: "(gpio_op \<Rightarrow> bool) \<Rightarrow> app_config \<Rightarrow> button_controller" where
  "new_button_controller fails cfg =
     initialize_buttons fails cfg
       \<lparr>buttons = Map.empty, button_states = Map.empty, last_press_times = Map.empty,
        callbacks = {}, fired = []\<rparr>"

text \<open>
  \<^verbatim>\<open>_button_callback\<close>: every exception (a name missing from a dictionary, a failing
  \<^verbatim>\<open>GPIO.input\<close>) is caught and leaves the controller as it is at that point.
\<close>

definition button_callback :: "app_config \<Rightarrow> real \<Rightarrow> pin_read \<Rightarrow> string \<Rightarrow> button_controller \<Rightarrow> button_controller" where
  "button_callback cfg current_time rd button_name c =
     (case buttons c button_name of
        None \<Rightarrow> c
      | Some pin \<Rightarrow>
          (case last_press_times c button_name of
             None \<Rightarrow> c
           | Some last_press \<Rightarrow>
               if current_time - last_press < button_debounce_time cfg then c
               else
                 (case rd of
                    PinRaises \<Rightarrow> c
                  | PinLevel current_state \<Rightarrow>
                      (case button_states c button_name of
                         None \<Rightarrow> c
                       | Some old_state \<Rightarrow>
                           if current_state \<noteq> old_state then
                             (let c1 = c\<lparr>button_states := (button_states c)(button_name \<mapsto> current_state),
                                          last_press_times := (last_press_times c)(button_name \<mapsto> current_time)\<rparr>
                              in if button_name \<in> callbacks c1
                                 then c1\<lparr>fired := fired c1 @ [(button_name, current_state)]\<rparr>
                                 else c1)
                           else c))))"

definition register_callback :: "string \<Rightarrow> button_controller \<Rightarrow> button_controller" where
  "register_callback button_name c = c\<lparr>callbacks := insert button_name (callbacks c)\<rparr>"

definition get_button_state :: "button_controller \<Rightarrow> string \<Rightarrow> bool" where
  "get_button_state c button_name =
     (case button_states c button_name of None \<Rightarrow> True | Some s \<Rightarrow> s)"

text \<open>What can happen to a controller after its construction, and a run of such events.\<close>

datatype button_event =
    Edge string real pin_read
  | Register string

fun button_step :: "app_config \<Rightarrow> button_event \<Rightarrow> button_controller \<Rightarrow> button_controller" where
  "button_step cfg (Edge button_name current_time rd) c = button_callback cfg current_time rd button_name c"
| "button_step cfg (Register button_name) c = register_callback button_name c"

fun button_run :: "app_config \<Rightarrow> button_event list \<Rightarrow> button_controller \<Rightarrow> button_controller" where
  "button_run cfg [] c = c"
| "button_run cfg (ev # evs) c = button_run cfg evs (button_step cfg ev c)"

section \<open>video\_player.py\<close>

text \<open>
  The GStreamer pipeline is an external object. The model keeps the calls that the
  player makes on it, in order, and takes its behaviour as given: \<open>raising\<close> tells
  which calls raise an exception (and with which text), \<open>position_answer\<close> and
  \<open>duration_answer\<close> are what the two queries return. \<open>SetLocation\<close> is the pair
  \<^verbatim>\<open>get_by_name('filesrc0')\<close>, \<^verbatim>\<open>set_property('location', _)\<close>, and \<open>SetSinkVolume\<close>
  the pair \<^verbatim>\<open>get_by_name('alsasink0')\<close>, \<^verbatim>\<open>set_property('volume', _)\<close>.
\<close>

datatype gst_state = GstNull | GstPaused | GstPlaying

datatype gst_call =
    SetState gst_state
  | SetLocation string
  | SeekSimple real
  | SetSinkVolume real

datatype gst_query = QueryRaises | QueryAnswer bool int

record pipeline =
  calls :: "gst_call list"
  raising :: "gst_call \<Rightarrow> string option"
  position_answer :: gst_query
  duration_answer :: gst_query

definition gst :: "gst_call \<Rightarrow> pipeline \<Rightarrow> py_exn + pipeline" where
  "gst c p =
     (case raising p c of
        Some msg \<Rightarrow> Inl (ExternalError msg)
      | None \<Rightarrow> Inr (p\<lparr>calls := calls p @ [c]\<rparr>))"

text \<open>\<^verbatim>\<open>Gst.SECOND\<close>, in nanoseconds.\<close>

definition gst_SECOND :: real where
  "gst_SECOND = 1000000000"

record video_player =
  pipeline :: "pipeline option"
  vp_current_video :: "string option"
  playback_position :: real
  volume :: int
  is_playing :: bool

definition play :: "video_player \<Rightarrow> video_player" where
  "play vp =
     (case pipeline vp of
        None \<Rightarrow> vp
      | Some p \<Rightarrow>
          (case gst (SetState GstPlaying) p of
             Inl e \<Rightarrow> vp
           | Inr p1 \<Rightarrow> vp\<lparr>pipeline := Some p1, is_playing := True\<rparr>))"

definition pause :: "video_player \<Rightarrow> video_player" where
  "pause vp =
     (case pipeline vp of
        None \<Rightarrow> vp
      | Some p \<Rightarrow>
          (case gst (SetState GstPaused) p of
             Inl e \<Rightarrow> vp
           | Inr p1 \<Rightarrow> vp\<lparr>pipeline := Some p1, is_playing := False\<rparr>))"

definition seek :: "real \<Rightarrow> video_player \<Rightarrow> video_player" where
  "seek pos vp =
     (case pipeline vp of
        None \<Rightarrow> vp
      | Some p \<Rightarrow>
          (let seek_time = pos * gst_SECOND
           in case gst (SeekSimple seek_time) p of
                Inl e \<Rightarrow> vp
              | Inr p1 \<Rightarrow> vp\<lparr>pipeline := Some p1\<rparr>))"

definition set_volume :: "int \<Rightarrow> video_player \<Rightarrow> video_player" where
  "set_volume v vp =
     (case pipeline vp of
        None \<Rightarrow> vp
      | Some p \<Rightarrow>
          (let vp1 = vp\<lparr>volume := max 0 (min 100 v)\<rparr>;
               linear_volume = real_of_int (volume vp1) / 100
           in case gst (SetSinkVolume linear_volume) p of
                Inl e \<Rightarrow> vp1
              | Inr p1 \<Rightarrow> vp1\<lparr>pipeline := Some p1\<rparr>))"

definition get_position :: "video_player \<Rightarrow> real" where
  "get_position vp =
     (case pipeline vp of
        None \<Rightarrow> 0
      | Some p \<Rightarrow>
          (case position_answer p of
             QueryRaises \<Rightarrow> 0
           | QueryAnswer success pos \<Rightarrow> if success then real_of_int pos / gst_SECOND else 0))"

definition get_duration :: "video_player \<Rightarrow> real" where
  "get_duration vp =
     (case pipeline vp of
        None \<Rightarrow> 0
      | Some p \<Rightarrow>
          (case duration_answer p of
             QueryRaises \<Rightarrow> 0
           | QueryAnswer success duration \<Rightarrow> if success then real_of_int duration / gst_SECOND else 0))"




text \<open>
  The file \<^verbatim>\<open>playback_state.json\<close>: absent, holding one record, or in a condition in
  which opening or parsing it raises. The rest of the file system is seen through
  \<^verbatim>\<open>os.path.exists\<close> only.
\<close>

record playback_state =
  saved_video_path :: string
  saved_position :: real
  saved_volume :: int

datatype file_content = NoFile | Stored playback_state | Unreadable

record world =
  path_exists :: "string \<Rightarrow> bool"
  state_file :: file_content



definition load_saved_position :: "world \<Rightarrow> video_player \<Rightarrow> video_player" where
  "load_saved_position w vp =
     (case state_file w of
        NoFile \<Rightarrow> vp
      | Unreadable \<Rightarrow> vp
      | Stored st \<Rightarrow>
          if Some (saved_video_path st) = vp_current_video vp
          then set_volume (saved_volume st) (seek (saved_position st) vp)
          else vp)"

text \<open>
  \<^verbatim>\<open>load\<close> logs and re-raises every exception of its body, so it returns the
  exception, if any, beside the player as the exception left it.
\<close>

definition load :: "world \<Rightarrow> string \<Rightarrow> video_player \<Rightarrow> py_exn option \<times> video_player" where
  "load w path vp =
     (if \<not> path_exists w path
      then (Some (FileNotFoundError (''Video file not found: '' @ path)), vp)
      else
        (case pipeline vp of
           None \<Rightarrow> (Some (no_attribute ''NoneType'' ''get_by_name''), vp)
         | Some p \<Rightarrow>
             (case gst (SetState GstNull) p of
                Inl e \<Rightarrow> (Some e, vp)
              | Inr p1 \<Rightarrow>
                  (case gst (SetLocation path) p1 of
                     Inl e \<Rightarrow> (Some e, vp\<lparr>pipeline := Some p1\<rparr>)
                   | Inr p2 \<Rightarrow>
                       (let vp1 = vp\<lparr>pipeline := Some p2, vp_current_video := Some path\<rparr>;
                            vp2 = load_saved_position w vp1;
                            vp3 = play vp2;
                            vp4 = pause vp3
                        in (None, vp4))))))"

section \<open>media\_player.py\<close>

text \<open>
  The session state of \<^verbatim>\<open>MediaPlayerApp\<close> once \<^verbatim>\<open>build\<close> has run, so that the
  components and the widgets exist. Of the widgets the model keeps what the handlers
  write: the text of \<^verbatim>\<open>status_label\<close>, the opacity of \<^verbatim>\<open>controls_overlay\<close> and the
  value of \<^verbatim>\<open>progress_bar\<close>. \<open>progress_updates\<close> counts the registrations of
  \<^verbatim>\<open>update_progress\<close> with the Kivy clock.
\<close>

record media_player_app =
  config :: app_config
  video_player :: video_player
  current_video :: "string option"
  is_test_mode :: bool
  controls_visible :: bool
  last_touch_time :: real
  controls_timeout :: real
  status_text :: string
  overlay_opacity :: real
  progress_value :: real
  progress_updates :: nat

definition show_controls :: "real \<Rightarrow> media_player_app \<Rightarrow> media_player_app" where
  "show_controls current_time app =
     app\<lparr>controls_visible := True, overlay_opacity := 1, last_touch_time := current_time\<rparr>"

definition show_message :: "real \<Rightarrow> string \<Rightarrow> media_player_app \<Rightarrow> media_player_app" where
  "show_message current_time message app =
     show_controls current_time (app\<lparr>status_text := message\<rparr>)"

text \<open>
  \<^verbatim>\<open>load_video\<close>. Its \<^verbatim>\<open>except\<close> clause catches what \<^verbatim>\<open>VideoPlayer.load\<close> re-raises
  and shows it. \<open>current_time\<close> is the clock when the message is shown.
\<close>

definition load_video :: "world \<Rightarrow> real \<Rightarrow> string \<Rightarrow> media_player_app \<Rightarrow> media_player_app" where
  "load_video w current_time path app =
     (if path_exists w path then
        (case load w path (video_player app) of
           (Some e, vp1) \<Rightarrow>
             show_message current_time (''Error loading video: '' @ str_exn e)
               (app\<lparr>video_player := vp1\<rparr>)
         | (None, vp1) \<Rightarrow>
             (let app1 = app\<lparr>video_player := vp1, current_video := Some path\<rparr>;
                  app2 = show_message current_time ''Video Loaded - Press Play'' app1
              in app2\<lparr>progress_updates := Suc (progress_updates app2)\<rparr>))
      else show_message current_time (''File not found: '' @ path) app)"

text \<open>
  \<^verbatim>\<open>handle_tag_detection\<close>: the \<^verbatim>\<open>for\<close> loop over \<^verbatim>\<open>config['rfid_tags']\<close>, which
  returns at the first entry with the scanned id, and the code after the loop.
\<close>

fun tag_loop :: "world \<Rightarrow> real \<Rightarrow> tag_binding list \<Rightarrow> string \<Rightarrow> media_player_app \<Rightarrow> media_player_app" where
  "tag_loop w current_time [] scanned app =
     (if \<not> truthy (current_video app)
      then show_message current_time ''Unidentified Tag Detected'' app
      else app)"
| "tag_loop w current_time (tag # tags) scanned app =
     (if tag_id tag = scanned then load_video w current_time (video_path tag) app
      else tag_loop w current_time tags scanned app)"

definition handle_tag_detection :: "world \<Rightarrow> real \<Rightarrow> string \<Rightarrow> media_player_app \<Rightarrow> media_player_app" where
  "handle_tag_detection w current_time scanned app =
     tag_loop w current_time (rfid_tags (config app)) scanned app"

text \<open>
  \<^verbatim>\<open>on_progress_change\<close> is bound to the value of the progress bar, so Kivy calls it
  whenever an assignment changes that value.
\<close>

definition on_progress_change :: "real \<Rightarrow> media_player_app \<Rightarrow> media_player_app" where
  "on_progress_change v app =
     (if \<not> truthy (current_video app) then app
      else
        (let pos = (v / 100) * get_duration (video_player app)
         in app\<lparr>video_player := seek pos (video_player app)\<rparr>))"

definition set_progress_value :: "real \<Rightarrow> media_player_app \<Rightarrow> media_player_app" where
  "set_progress_value v app =
     (if v = progress_value app then app
      else on_progress_change v (app\<lparr>progress_value := v\<rparr>))"

text \<open>
  \<^verbatim>\<open>hide_controls\<close> tests \<^verbatim>\<open>self.controls_visible and not
  self.video_player.player.is_playing()\<close>. The class \<^verbatim>\<open>VideoPlayer\<close> sets the attributes
  \<^verbatim>\<open>config\<close>, \<^verbatim>\<open>pipeline\<close>, \<^verbatim>\<open>bus\<close>, \<^verbatim>\<open>current_video\<close>, \<^verbatim>\<open>playback_position\<close>,
  \<^verbatim>\<open>volume\<close> and \<^verbatim>\<open>is_playing\<close> and defines no attribute \<^verbatim>\<open>player\<close>. So when
  \<^verbatim>\<open>controls_visible\<close> is true, the second operand of \<^verbatim>\<open>and\<close> is evaluated and the
  lookup of \<^verbatim>\<open>player\<close> raises \<^verbatim>\<open>AttributeError\<close> before \<^verbatim>\<open>is_playing\<close> is reached;
  when it is false, the operand is not evaluated and the body is skipped. The function
  has no handler, so the exception leaves it.
\<close>

definition hide_controls :: "media_player_app \<Rightarrow> py_exn option \<times> media_player_app" where
  "hide_controls app =
     (if controls_visible app
      then (Some (no_attribute ''VideoPlayer'' ''player''), app)
      else (None, app))"

text \<open>
  \<^verbatim>\<open>update_progress\<close>, the progress and visibility step, at clock \<open>current_time\<close>. It
  has no handler either: an exception of \<^verbatim>\<open>hide_controls\<close> leaves it.
\<close>

definition update_progress :: "real \<Rightarrow> media_player_app \<Rightarrow> py_exn option \<times> media_player_app" where
  "update_progress current_time app =
     (if truthy (current_video app) then
        (let pos = get_position (video_player app);
             duration = get_duration (video_player app);
             app1 = (if duration > 0 then set_progress_value ((pos / duration) * 100) app else app)
         in if controls_visible app1 \<and> current_time - last_touch_time app1 > controls_timeout app1
            then hide_controls app1
            else (None, app1))
      else (None, app))"

section \<open>A concrete session\<close>

text \<open>
  A session on which the properties below are evaluated: two tag bindings, both video
  files on disk, no state file yet, a pipeline that raises nothing and reports
  position 42 s of 120 s, the controls hidden.
\<close>

definition example_config :: app_config where
  "example_config =
     \<lparr>gpio_pins = [(''play'', 17), (''stop'', 27)],
      rfid_tags = [\<lparr>tag_id = ''1001'', video_path = ''a.mp4''\<rparr>,
                   \<lparr>tag_id = ''1002'', video_path = ''b.mp4''\<rparr>],
      button_debounce_time = 3 / 10\<rparr>"

definition example_pipeline :: pipeline where
  "example_pipeline =
     \<lparr>calls = [], raising = (\<lambda>c. None),
      position_answer = QueryAnswer True 42000000000,
      duration_answer = QueryAnswer True 120000000000\<rparr>"

definition example_player :: video_player where
  "example_player =
     \<lparr>pipeline = Some example_pipeline, vp_current_video = None, playback_position = 0,
      volume = 50, is_playing = False\<rparr>"

definition example_world :: world where
  "example_world =
     \<lparr>path_exists = (\<lambda>path. path = ''a.mp4'' \<or> path = ''b.mp4''), state_file = NoFile\<rparr>"

definition example_app :: media_player_app where
  "example_app =
     \<lparr>config = example_config, video_player = example_player, current_video = None,
      is_test_mode = False, controls_visible = False, last_touch_time = 0,
      controls_timeout = 3, status_text = ''Insert Plate'', overlay_opacity = 0,
      progress_value = 0, progress_updates = 0\<rparr>"

text \<open>
  The same session later on: \<^verbatim>\<open>a.mp4\<close> has been loaded at clock 5, which showed
  the controls, and the progress bar shows 35, which is position 42 s of 120 s. The
  flag says whether the player is playing or paused.
\<close>

definition example_watching :: "bool \<Rightarrow> media_player_app" where
  "example_watching playing =
     example_app\<lparr>video_player :=
                   example_player\<lparr>vp_current_video := Some ''a.mp4'', is_playing := playing\<rparr>,
                 current_video := Some ''a.mp4'', controls_visible := True,
                 last_touch_time := 5, status_text := ''Video Loaded - Press Play'',
                 overlay_opacity := 1, progress_value := 35, progress_updates := 1\<rparr>"

section \<open>Properties of the battery monitor\<close>

declare str_nat.simps [simp del]

lemma convert_examples:
  "convert_to_percentage 512 = 50 \<and> convert_to_percentage (- 3) = 0 \<and>
   convert_to_percentage 5000 = 100 \<and> convert_to_percentage 1 = 0 \<and>
   convert_to_percentage 1023 = 100"
  by (simp add: convert_to_percentage_def py_int_def)

lemma convert_range: "0 \<le> convert_to_percentage raw \<and> convert_to_percentage raw \<le> 100"
  by (simp add: convert_to_percentage_def)

lemma get_levels_inv:
  "0 \<le> battery_level b \<Longrightarrow> battery_level b \<le> 100 \<Longrightarrow>
   list_all (\<lambda>v. 0 \<le> v \<and> v \<le> 100) (fst (get_levels rds b))"
proof (induction rds arbitrary: b)
  case Nil
  then show ?case by simp
next
  case (Cons rd rds)
  show ?case
  proof (cases rd)
    case (GpioValue raw)
    have "list_all (\<lambda>v. 0 \<le> v \<and> v \<le> 100)
            (fst (get_levels rds (b\<lparr>battery_level := convert_to_percentage raw\<rparr>)))"
      by (rule Cons.IH) (simp_all add: convert_range)
    with GpioValue show ?thesis
      by (simp add: get_level_def convert_range case_prod_beta)
  next
    case GpioRaises
    with Cons show ?thesis
      by (simp add: get_level_def case_prod_beta)
  qed
qed

lemma get_levels_state:
  "battery_level (snd (get_levels rds b)) =
     (case last_good rds of Some raw \<Rightarrow> convert_to_percentage raw | None \<Rightarrow> battery_level b)"
proof (induction rds arbitrary: b)
  case Nil
  show ?case by simp
next
  case (Cons rd rds)
  show ?case
    by (cases rd) (simp_all add: get_level_def Cons.IH case_prod_beta split: option.splits)
qed

lemma last_good_None: "(last_good rds = None) = list_all (\<lambda>rd. rd = GpioRaises) rds"
  by (induction rds) (auto split: option.splits gpio_read.splits)

text \<open>
  Claim C5. Take any sequence of battery reads after initialisation, and let the next
  read fail in the hardware access. It returns the converted value of the most recent
  read that succeeded, and leaves the monitor as it is. It returns the initial value 100
  as a default exactly when there is no such read, which is when every read so far has
  failed.
\<close>

theorem failed_read_returns_last_good:
  "get_level GpioRaises (snd (get_levels rds new_battery_monitor)) =
     ((case last_good rds of Some raw \<Rightarrow> convert_to_percentage raw | None \<Rightarrow> 100),
      snd (get_levels rds new_battery_monitor))
   \<and> (last_good rds = None) = list_all (\<lambda>rd. rd = GpioRaises) rds"
proof -
  have "battery_level (snd (get_levels rds new_battery_monitor)) =
          (case last_good rds of Some raw \<Rightarrow> convert_to_percentage raw | None \<Rightarrow> 100)"
    by (simp add: get_levels_state new_battery_monitor_def split: option.splits)
  then show ?thesis
    by (simp add: get_level_def last_good_None)
qed

text \<open>
  Claim C6. The conversion of any raw value, inside the calibrated range 0..1023 or
  outside of it, lies in [0,100]; and in any sequence of reads after initialisation,
  successful or failed, every level that \<^verbatim>\<open>get_level\<close> returns lies in [0,100].
\<close>

theorem battery_level_clamped:
  "0 \<le> convert_to_percentage raw \<and> convert_to_percentage raw \<le> 100 \<and>
   list_all (\<lambda>v. 0 \<le> v \<and> v \<le> 100) (fst (get_levels rds new_battery_monitor))"
  using get_levels_inv [of new_battery_monitor rds] convert_range [of raw]
  by (simp add: new_battery_monitor_def)

section \<open>Properties of the RFID reader\<close>

lemma str_int_examples:
  "str_int 0 = ''0'' \<and> str_int 42 = ''42'' \<and> str_int (- 7) = ''-7'' \<and>
   str_int 1234567890 = ''1234567890''"
  by (simp add: str_int_def str_nat.simps digit_char_def)

lemma digit_char_inj: "a < 10 \<Longrightarrow> b < 10 \<Longrightarrow> digit_char a = digit_char b \<Longrightarrow> a = b"
proof -
  assume a: "a < 10" and b: "b < 10" and e: "digit_char a = digit_char b"
  have A: "a \<in> {0,1,2,3,4,5,6,7,8,9}" using a by auto
  have B: "b \<in> {0,1,2,3,4,5,6,7,8,9}" using b by auto
  from A B e show ?thesis
    by (auto simp: digit_char_def)
qed

lemma digit_char_not_minus: "d < 10 \<Longrightarrow> digit_char d \<noteq> CHR ''-''"
proof -
  assume a: "d < 10"
  have A: "d \<in> {0,1,2,3,4,5,6,7,8,9}" using a by auto
  then show ?thesis by (auto simp: digit_char_def)
qed

lemma str_nat_nonempty: "str_nat n \<noteq> []"
  by (subst str_nat.simps) simp

lemma str_nat_nonempty': "[] \<noteq> str_nat n"
  using str_nat_nonempty [of n] by simp

lemma str_nat_hd_not_minus: "hd (str_nat n) \<noteq> CHR ''-''"
proof (induction n rule: str_nat.induct)
  case (1 n)
  show ?case
  proof (cases "n < 10")
    case True
    then show ?thesis by (subst str_nat.simps) (simp add: digit_char_not_minus)
  next
    case False
    with 1 show ?thesis by (subst str_nat.simps) (simp add: str_nat_nonempty)
  qed
qed

lemma str_nat_inj: "str_nat n = str_nat m \<Longrightarrow> n = m"
proof (induction n arbitrary: m rule: str_nat.induct)
  case (1 n)
  show ?case
  proof (cases "n < 10")
    case n: True
    show ?thesis
    proof (cases "m < 10")
      case True
      with n 1(2) show ?thesis
        by (simp add: str_nat.simps [of n] str_nat.simps [of m] digit_char_inj)
    next
      case False
      with n 1(2) show ?thesis
        by (simp add: str_nat.simps [of n] str_nat.simps [of m] str_nat_nonempty')
    qed
  next
    case n: False
    show ?thesis
    proof (cases "m < 10")
      case True
      with n 1(2) show ?thesis
        by (simp add: str_nat.simps [of n] str_nat.simps [of m] str_nat_nonempty)
    next
      case False
      with n 1(2) have e: "str_nat (n div 10) = str_nat (m div 10)"
        and d: "digit_char (n mod 10) = digit_char (m mod 10)"
        by (simp_all add: str_nat.simps [of n] str_nat.simps [of m])
      from 1(1) [OF n e] have q: "n div 10 = m div 10" .
      from d have r: "n mod 10 = m mod 10"
        by (intro digit_char_inj) simp_all
      from q r show ?thesis
        by (metis div_mult_mod_eq)
    qed
  qed
qed

lemma str_int_inj: "str_int i = str_int j \<Longrightarrow> i = j"
proof -
  assume e: "str_int i = str_int j"
  have hd: "CHR ''-'' # xs \<noteq> str_nat m" for m xs
    using str_nat_hd_not_minus [of m] by (metis list.sel(1))
  show ?thesis
  proof (cases "i < 0"; cases "j < 0")
    assume "i < 0" "j < 0"
    with e have "nat (- i) = nat (- j)" by (simp add: str_int_def str_nat_inj)
    with \<open>i < 0\<close> \<open>j < 0\<close> show ?thesis by simp
  next
    assume "i < 0" "\<not> j < 0"
    with e hd [of "str_nat (nat (- i))" "nat j"] show ?thesis by (simp add: str_int_def)
  next
    assume "\<not> i < 0" "j < 0"
    with e hd [of "str_nat (nat (- j))" "nat i"] show ?thesis by (simp add: str_int_def)
  next
    assume "\<not> i < 0" "\<not> j < 0"
    with e have "nat i = nat j" by (simp add: str_int_def str_nat_inj)
    with \<open>\<not> i < 0\<close> \<open>\<not> j < 0\<close> show ?thesis by simp
  qed
qed


lemma read_tag_window:
  "t2 - last_read_time r < 1 \<Longrightarrow> read_tag t2 poll r = (None, r)"
  by (simp add: read_tag_def)

text \<open>
  Claim C1, as stated, fails on the code. A tag with id 1 is accepted at clock 10; half
  a second later the reader shows a different tag, with id 2. \<^verbatim>\<open>read_tag\<close> returns
  \<^verbatim>\<open>None\<close> for it: the debounce test comes before the reader is polled, so inside
  the window no tag yields a signal.
\<close>

theorem different_tag_within_window_counterexample:
  "read_tags [(10, TagRead 1), (21 / 2, TagRead 2)] (new_rfid_reader True) =
     ([Some ''1'', None],
      \<lparr>is_connected = True, last_read_time = 10, last_tag_id = Some ''1''\<rparr>)"
  by (simp add: read_tag_def new_rfid_reader_def initialize_reader_def str_int_def
      str_nat.simps digit_char_def Let_def)

text \<open>
  Claim C1, amended. Let a first read of tag \<open>i\<close> be accepted at clock \<open>t1\<close> (the reader
  is connected, the window of the read before has elapsed, and \<open>i\<close> is not the last
  accepted tag): \<^verbatim>\<open>read_tag\<close> returns its id. A second call at \<open>t2\<close> inside the window
  of one second returns \<^verbatim>\<open>None\<close> and changes nothing, whatever the reader shows, the
  same tag or a different one. A second call once the window has elapsed returns the
  id of a different tag \<open>j\<close>.
\<close>

theorem read_tag_debounce:
  assumes "is_connected r" and "1 \<le> t1 - last_read_time r"
    and "last_tag_id r \<noteq> Some (str_int i)"
    and "r1 = snd (read_tag t1 (TagRead i) r)"
  shows "fst (read_tag t1 (TagRead i) r) = Some (str_int i) \<and>
         (t2 - t1 < 1 \<longrightarrow> read_tag t2 poll r1 = (None, r1)) \<and>
         (1 \<le> t2 - t1 \<longrightarrow> j \<noteq> i \<longrightarrow> fst (read_tag t2 (TagRead j) r1) = Some (str_int j))"
proof -
  from assms have r1: "r1 = r\<lparr>last_read_time := t1, last_tag_id := Some (str_int i)\<rparr>"
    and first: "fst (read_tag t1 (TagRead i) r) = Some (str_int i)"
    by (auto simp add: read_tag_def Let_def)
  have within: "t2 - t1 < 1 \<longrightarrow> read_tag t2 poll r1 = (None, r1)"
    by (simp add: r1 read_tag_def)
  have other: "1 \<le> t2 - t1 \<longrightarrow> j \<noteq> i \<longrightarrow> fst (read_tag t2 (TagRead j) r1) = Some (str_int j)"
    using assms(1) str_int_inj [of j i] by (auto simp add: r1 read_tag_def Let_def)
  from first within other show ?thesis by blast
qed

theorem read_tag_debounce_witness:
  "fst (read_tag 10 (TagRead 1) (new_rfid_reader True)) = Some ''1'' \<and>
   read_tag (21 / 2) (TagRead 2) (snd (read_tag 10 (TagRead 1) (new_rfid_reader True))) =
     (None, snd (read_tag 10 (TagRead 1) (new_rfid_reader True))) \<and>
   read_tag (21 / 2) (TagRead 1) (snd (read_tag 10 (TagRead 1) (new_rfid_reader True))) =
     (None, snd (read_tag 10 (TagRead 1) (new_rfid_reader True))) \<and>
   fst (read_tag 12 (TagRead 2) (snd (read_tag 10 (TagRead 1) (new_rfid_reader True)))) = Some ''2''"
proof -
  let ?r = "new_rfid_reader True"
  have c: "is_connected ?r" and w: "1 \<le> 10 - last_read_time ?r"
    and n: "last_tag_id ?r \<noteq> Some (str_int 1)"
    by (simp_all add: new_rfid_reader_def initialize_reader_def)
  have s1: "str_int 1 = ''1''" and s2: "str_int 2 = ''2''"
    by (simp_all add: str_int_def str_nat.simps digit_char_def)
  note th = read_tag_debounce [OF c w n refl]
  from th [of "21 / 2" "TagRead 2" 2] th [of "21 / 2" "TagRead 1" 2] th [of 12 NoTag 2]
  show ?thesis by (simp add: s1 s2)
qed

lemma read_tag_same:
  assumes "last_tag_id r = Some (str_int T)" and "presents_only T poll"
  shows "fst (read_tag t poll r) = None \<and> last_tag_id (snd (read_tag t poll r)) = Some (str_int T)"
  using assms by (cases poll) (simp_all add: read_tag_def initialize_reader_def Let_def)

lemma read_tags_same:
  assumes "last_tag_id r = Some (str_int T)"
    and "list_all (\<lambda>tick. presents_only T (snd tick)) ticks"
  shows "list_all (\<lambda>res. res = None) (fst (read_tags ticks r)) \<and>
         last_tag_id (snd (read_tags ticks r)) = Some (str_int T)"
  using assms
proof (induction ticks arbitrary: r)
  case Nil
  then show ?case by simp
next
  case (Cons tick ticks)
  obtain t poll where tick: "tick = (t, poll)" by (cases tick)
  from Cons.prems tick have p: "presents_only T poll" by simp
  from read_tag_same [OF Cons.prems(1) p, of t]
  have a: "fst (read_tag t poll r) = None"
    and b: "last_tag_id (snd (read_tag t poll r)) = Some (str_int T)" by simp_all
  from Cons.prems(2) have "list_all (\<lambda>tick. presents_only T (snd tick)) ticks" by simp
  from Cons.IH [OF b this] a tick show ?case
    by (simp add: case_prod_beta)
qed

text \<open>
  Claim C2, as stated, fails on the code. Tag 7 is accepted at clock 10. At 11.5 the
  reader sees no tag (the tag has been removed), and at 13, three seconds after the
  accepted read, the tag is presented again: \<^verbatim>\<open>read_tag\<close> returns \<^verbatim>\<open>None\<close>. Neither
  the removal nor the elapsed window resets \<^verbatim>\<open>last_tag_id\<close>.
\<close>

theorem same_tag_never_retriggers_counterexample:
  "read_tags [(10, TagRead 7), (23 / 2, NoTag), (13, TagRead 7)] (new_rfid_reader True) =
     ([Some ''7'', None, None],
      \<lparr>is_connected = True, last_read_time = 13, last_tag_id = Some ''7''\<rparr>)"
  by (simp add: read_tag_def new_rfid_reader_def initialize_reader_def str_int_def
      str_nat.simps digit_char_def Let_def)

text \<open>
  Claim C2, amended. Let \<open>T\<close> be the last accepted tag id. Over any run of ticks at
  which the reader shows no tag other than \<open>T\<close> (it sees nothing, or \<open>T\<close>, or the read
  fails), at any clock readings, \<^verbatim>\<open>read_tag\<close> returns \<^verbatim>\<open>None\<close> every time and \<open>T\<close>
  stays the last accepted id. \<open>T\<close> is returned again after a different tag \<open>U\<close> has
  been accepted in between, each read outside the window of the one before.
\<close>

theorem same_tag_suppressed_until_other_tag:
  assumes "last_tag_id r = Some (str_int T)"
  shows "(list_all (\<lambda>tick. presents_only T (snd tick)) ticks \<longrightarrow>
            list_all (\<lambda>res. res = None) (fst (read_tags ticks r)) \<and>
            last_tag_id (snd (read_tags ticks r)) = Some (str_int T)) \<and>
         (is_connected r \<and> 1 \<le> t1 - last_read_time r \<and> U \<noteq> T \<and> 1 \<le> t2 - t1 \<longrightarrow>
            fst (read_tags [(t1, TagRead U), (t2, TagRead T)] r) =
              [Some (str_int U), Some (str_int T)])"
proof -
  have again: "fst (read_tags [(t1, TagRead U), (t2, TagRead T)] r) =
      [Some (str_int U), Some (str_int T)]"
    if "is_connected r" "1 \<le> t1 - last_read_time r" "U \<noteq> T" "1 \<le> t2 - t1"
    using that assms str_int_inj [of U T] str_int_inj [of T U]
    by (auto simp add: read_tag_def Let_def)
  from read_tags_same [OF assms] again show ?thesis by blast
qed

theorem same_tag_suppressed_until_other_tag_witness:
  "list_all (\<lambda>res. res = None)
     (fst (read_tags [(23 / 2, NoTag), (13, TagRead 7), (15, ReadRaises True), (20, TagRead 7)]
        \<lparr>is_connected = True, last_read_time = 10, last_tag_id = Some ''7''\<rparr>)) \<and>
   fst (read_tags [(12, TagRead 8), (14, TagRead 7)]
          \<lparr>is_connected = True, last_read_time = 10, last_tag_id = Some ''7''\<rparr>) =
     [Some ''8'', Some ''7'']"
proof -
  let ?r = "\<lparr>is_connected = True, last_read_time = 10, last_tag_id = Some ''7''\<rparr>"
  have s: "str_int 7 = ''7''" "str_int 8 = ''8''"
    by (simp_all add: str_int_def str_nat.simps digit_char_def)
  have l: "last_tag_id ?r = Some (str_int 7)" by (simp add: s)
  have h1: "list_all (\<lambda>tick. presents_only 7 (snd tick))
      [(23 / 2 :: real, NoTag), (13, TagRead 7), (15, ReadRaises True), (20, TagRead 7)]"
    by simp
  have h2: "is_connected ?r \<and> 1 \<le> 12 - last_read_time ?r \<and> (8::int) \<noteq> 7 \<and> (1::real) \<le> 14 - 12"
    by simp
  from same_tag_suppressed_until_other_tag [OF l,
      of "[(23 / 2, NoTag), (13, TagRead 7), (15, ReadRaises True), (20, TagRead 7)]" 12 8 14]
    h1 h2
  show ?thesis
    unfolding s by blast
qed

section \<open>Properties of the button controller\<close>

lemma configure_buttons_unconfigured:
  "button_states c button_name = None \<Longrightarrow> button_name \<notin> fst ` set pins \<Longrightarrow>
   button_states (configure_buttons fails pins c) button_name = None"
proof (induction pins arbitrary: c)
  case Nil
  then show ?case by simp
next
  case (Cons entry pins)
  obtain other pin where entry: "entry = (other, pin)" by (cases entry)
  from Cons.prems entry have ne: "other \<noteq> button_name" and rest: "button_name \<notin> fst ` set pins"
    by auto
  let ?c1 = "c\<lparr>buttons := (buttons c)(other \<mapsto> pin),
                 button_states := (button_states c)(other \<mapsto> True),
                 last_press_times := (last_press_times c)(other \<mapsto> 0)\<rparr>"
  from Cons.prems(1) ne have c1: "button_states ?c1 button_name = None" by simp
  from Cons.IH [OF c1 rest] Cons.prems(1) c1 entry show ?case
    by (simp add: Let_def)
qed

lemma new_button_controller_unconfigured:
  "button_name \<notin> fst ` set (gpio_pins cfg) \<Longrightarrow>
   button_states (new_button_controller fails cfg) button_name = None"
  by (simp add: new_button_controller_def initialize_buttons_def configure_buttons_unconfigured)

lemma button_callback_unconfigured:
  "button_states c button_name = None \<Longrightarrow>
   button_states (button_callback cfg t rd other c) button_name = None"
  by (cases "other = button_name")
     (auto simp add: button_callback_def Let_def split: option.splits pin_read.splits)

lemma button_step_unconfigured:
  "button_states c button_name = None \<Longrightarrow> button_states (button_step cfg ev c) button_name = None"
  by (cases ev) (simp_all add: button_callback_unconfigured register_callback_def)

lemma button_run_unconfigured:
  "button_states c button_name = None \<Longrightarrow> button_states (button_run cfg evs c) button_name = None"
  by (induction evs arbitrary: c) (simp_all add: button_step_unconfigured)

text \<open>
  Claim C9. Take a button name for which the configuration has no pin, so that
  \<^verbatim>\<open>initialize_buttons\<close> made no entry for it. Whichever GPIO calls failed during
  initialisation, and after any run of edge events and callback registrations (also for
  that very name), \<^verbatim>\<open>get_button_state\<close> returns \<^verbatim>\<open>True\<close> for it. The function of
  the model is total, as the source's is: \<^verbatim>\<open>dict.get\<close> with a default does not raise
  on a missing name, and the handler of the source returns \<^verbatim>\<open>True\<close> as well.
\<close>

theorem unconfigured_button_reads_True:
  assumes "button_name \<notin> fst ` set (gpio_pins cfg)"
  shows "get_button_state (button_run cfg evs (new_button_controller fails cfg)) button_name = True"
  using button_run_unconfigured [OF new_button_controller_unconfigured [OF assms]]
  by (simp add: get_button_state_def)

theorem unconfigured_button_reads_True_witness:
  "''eject'' \<notin> fst ` set (gpio_pins \<lparr>gpio_pins = [(''play'', 17), (''stop'', 27)], rfid_tags = [],
       button_debounce_time = 3 / 10\<rparr>) \<and>
   get_button_state
     (button_run \<lparr>gpio_pins = [(''play'', 17), (''stop'', 27)], rfid_tags = [],
         button_debounce_time = 3 / 10\<rparr>
        [Register ''eject'', Edge ''eject'' 5 (PinLevel False), Edge ''play'' 6 (PinLevel False)]
        (new_button_controller (\<lambda>op. False)
           \<lparr>gpio_pins = [(''play'', 17), (''stop'', 27)], rfid_tags = [],
            button_debounce_time = 3 / 10\<rparr>))
     ''eject'' = True"
proof -
  let ?cfg = "\<lparr>gpio_pins = [(''play'', 17), (''stop'', 27)], rfid_tags = [],
       button_debounce_time = 3 / 10\<rparr>"
  have h: "''eject'' \<notin> fst ` set (gpio_pins ?cfg)" by simp
  from h unconfigured_button_reads_True [OF h] show ?thesis by blast
qed

lemma button_examples:
  "get_button_state
     (button_run \<lparr>gpio_pins = [(''play'', 17), (''stop'', 27)], rfid_tags = [],
         button_debounce_time = 3 / 10\<rparr>
        [Edge ''play'' 6 (PinLevel False)]
        (new_button_controller (\<lambda>op. False)
           \<lparr>gpio_pins = [(''play'', 17), (''stop'', 27)], rfid_tags = [],
            button_debounce_time = 3 / 10\<rparr>))
     ''play'' = False"
  by (simp add: new_button_controller_def initialize_buttons_def button_callback_def
      get_button_state_def Let_def)

section \<open>Properties of the video player\<close>

text \<open>
  Claim C10. \<^verbatim>\<open>get_position\<close> and \<^verbatim>\<open>get_duration\<close> return a number in every state of
  the player and of its pipeline, and raise nothing: 0 when there is no pipeline, 0
  when the query raises, 0 when the query reports failure, and the answer divided by
  \<^verbatim>\<open>Gst.SECOND\<close> when the query succeeds. The eight cases cover every state, since
  a pipeline is absent or present and a query raises or answers.
\<close>

theorem position_and_duration_total:
  "get_position (vp\<lparr>pipeline := None\<rparr>) = 0 \<and>
   get_duration (vp\<lparr>pipeline := None\<rparr>) = 0 \<and>
   get_position (vp\<lparr>pipeline := Some (p\<lparr>position_answer := QueryRaises\<rparr>)\<rparr>) = 0 \<and>
   get_duration (vp\<lparr>pipeline := Some (p\<lparr>duration_answer := QueryRaises\<rparr>)\<rparr>) = 0 \<and>
   get_position (vp\<lparr>pipeline := Some (p\<lparr>position_answer := QueryAnswer False n\<rparr>)\<rparr>) = 0 \<and>
   get_duration (vp\<lparr>pipeline := Some (p\<lparr>duration_answer := QueryAnswer False n\<rparr>)\<rparr>) = 0 \<and>
   get_position (vp\<lparr>pipeline := Some (p\<lparr>position_answer := QueryAnswer True n\<rparr>)\<rparr>) =
     real_of_int n / gst_SECOND \<and>
   get_duration (vp\<lparr>pipeline := Some (p\<lparr>duration_answer := QueryAnswer True n\<rparr>)\<rparr>) =
     real_of_int n / gst_SECOND"
  by (simp add: get_position_def get_duration_def)

section \<open>Properties of the application\<close>

text \<open>
  Claim C8, as stated, fails on the code. In the example session the controls are
  hidden and the last touch is at clock 0. \<^verbatim>\<open>load_video\<close> at clock 5 with a path that
  is not on disk shows its message through \<^verbatim>\<open>show_message\<close>, which calls
  \<^verbatim>\<open>show_controls\<close>: after it \<^verbatim>\<open>controls_visible\<close> is true and \<^verbatim>\<open>last_touch_time\<close>
  is 5. Both are session state beside \<^verbatim>\<open>current_video\<close>.
\<close>

theorem load_video_missing_file_counterexample:
  "\<not> path_exists example_world ''missing.mp4'' \<and>
   controls_visible example_app = False \<and>
   last_touch_time example_app = 0 \<and>
   controls_visible (load_video example_world 5 ''missing.mp4'' example_app) = True \<and>
   last_touch_time (load_video example_world 5 ''missing.mp4'' example_app) = 5"
  by (simp add: example_world_def example_app_def load_video_def show_message_def
      show_controls_def)

text \<open>
  Claim C8, amended. For every session and every path that is not on disk,
  \<^verbatim>\<open>load_video\<close> changes exactly this: the status text becomes the file-not-found
  message for the path, the controls become visible (with the overlay opaque), and
  \<^verbatim>\<open>last_touch_time\<close> becomes the current clock. \<^verbatim>\<open>current_video\<close>, the test-mode
  flag, the video player and the rest of the session stay as they were.
\<close>

theorem load_video_missing_file:
  assumes "\<not> path_exists w path"
  shows "load_video w t path app =
           app\<lparr>status_text := ''File not found: '' @ path, controls_visible := True,
               overlay_opacity := 1, last_touch_time := t\<rparr>"
  using assms by (simp add: load_video_def show_message_def show_controls_def)

theorem load_video_missing_file_witness:
  "\<not> path_exists example_world ''missing.mp4'' \<and>
   load_video example_world 5 ''missing.mp4'' example_app =
     example_app\<lparr>status_text := ''File not found: missing.mp4'', controls_visible := True,
               overlay_opacity := 1, last_touch_time := 5\<rparr> \<and>
   current_video (load_video example_world 5 ''missing.mp4'' example_app) =
     current_video example_app"
proof -
  have h: "\<not> path_exists example_world ''missing.mp4''"
    by (simp add: example_world_def)
  from h load_video_missing_file [OF h, of 5 example_app] show ?thesis by simp
qed

lemma tag_loop_find:
  "tag_loop w t tags scanned app =
     (case find (\<lambda>tag. tag_id tag = scanned) tags of
        Some tag \<Rightarrow> load_video w t (video_path tag) app
      | None \<Rightarrow> if \<not> truthy (current_video app)
                then show_message t ''Unidentified Tag Detected'' app else app)"
  by (induction tags) simp_all

text \<open>
  Claim C7. For every list of tag bindings and every scanned id: when the first entry
  with that id is \<open>tag\<close>, \<^verbatim>\<open>handle_tag_detection\<close> does what \<^verbatim>\<open>load_video\<close> does on
  the video path of \<open>tag\<close>; when no entry has the id and no video is loaded, it shows
  the message \<^verbatim>\<open>Unidentified Tag Detected\<close> and leaves \<^verbatim>\<open>current_video\<close> as it is
  (unset); when no entry has the id and a video is loaded, the session is unchanged.
  The evaluation after the theorem scans the second id of two bindings and finds the
  second video loaded.
\<close>

theorem handle_tag_detection_first_match:
  "(find (\<lambda>tag. tag_id tag = scanned) (rfid_tags (config app)) = Some tag \<longrightarrow>
      handle_tag_detection w t scanned app = load_video w t (video_path tag) app) \<and>
   (find (\<lambda>tag. tag_id tag = scanned) (rfid_tags (config app)) = None \<and>
      \<not> truthy (current_video app) \<longrightarrow>
      handle_tag_detection w t scanned app = show_message t ''Unidentified Tag Detected'' app \<and>
      status_text (handle_tag_detection w t scanned app) = ''Unidentified Tag Detected'' \<and>
      current_video (handle_tag_detection w t scanned app) = current_video app) \<and>
   (find (\<lambda>tag. tag_id tag = scanned) (rfid_tags (config app)) = None \<and>
      truthy (current_video app) \<longrightarrow>
      handle_tag_detection w t scanned app = app)"
  by (simp add: handle_tag_detection_def tag_loop_find show_message_def show_controls_def)

lemma example_load_b:
  "load example_world ''b.mp4'' example_player =
     (None, example_player\<lparr>pipeline := Some (example_pipeline\<lparr>calls :=
         [SetState GstNull, SetLocation ''b.mp4'', SetState GstPlaying, SetState GstPaused]\<rparr>),
        vp_current_video := Some ''b.mp4''\<rparr>)"
  by (simp add: load_def example_world_def example_player_def example_pipeline_def gst_def
      load_saved_position_def play_def pause_def Let_def)


theorem handle_tag_detection_first_match_witness:
  "current_video (handle_tag_detection example_world 5 ''1002'' example_app) = Some ''b.mp4'' \<and>
   vp_current_video (video_player (handle_tag_detection example_world 5 ''1002'' example_app)) =
     Some ''b.mp4'' \<and>
   status_text (handle_tag_detection example_world 5 ''9999'' example_app) =
     ''Unidentified Tag Detected'' \<and>
   current_video (handle_tag_detection example_world 5 ''9999'' example_app) = None \<and>
   handle_tag_detection example_world 5 ''9999'' (example_app\<lparr>current_video := Some ''a.mp4''\<rparr>) =
     example_app\<lparr>current_video := Some ''a.mp4''\<rparr>"
proof -
  let ?f = "\<lambda>scanned. find (\<lambda>tag. tag_id tag = scanned) (rfid_tags (config example_app))"
  have f1: "?f ''1002'' = Some \<lparr>tag_id = ''1002'', video_path = ''b.mp4''\<rparr>"
    and f2: "?f ''9999'' = None"
    by (simp_all add: example_app_def example_config_def)
  have f3: "find (\<lambda>tag. tag_id tag = ''9999'')
      (rfid_tags (config (example_app\<lparr>current_video := Some ''a.mp4''\<rparr>))) = None"
    by (simp add: example_app_def example_config_def)
  have t1: "\<not> truthy (current_video example_app)"
    and t2: "truthy (current_video (example_app\<lparr>current_video := Some ''a.mp4''\<rparr>))"
    by (simp_all add: example_app_def)
  have a: "handle_tag_detection example_world 5 ''1002'' example_app =
      load_video example_world 5 ''b.mp4'' example_app"
    using handle_tag_detection_first_match
      [of "''1002''" example_app "\<lparr>tag_id = ''1002'', video_path = ''b.mp4''\<rparr>" example_world 5] f1
    by simp
  have e: "path_exists example_world ''b.mp4''" by (simp add: example_world_def)
  have b: "current_video (load_video example_world 5 ''b.mp4'' example_app) = Some ''b.mp4''"
    and c: "vp_current_video (video_player (load_video example_world 5 ''b.mp4'' example_app)) =
      Some ''b.mp4''"
    by (simp_all add: load_video_def e example_load_b show_message_def show_controls_def
        Let_def example_app_def)
  from handle_tag_detection_first_match [of "''9999''" example_app undefined example_world 5] f2 t1
  have d: "status_text (handle_tag_detection example_world 5 ''9999'' example_app) =
       ''Unidentified Tag Detected''"
    and d': "current_video (handle_tag_detection example_world 5 ''9999'' example_app) =
       current_video example_app"
    by blast+
  from handle_tag_detection_first_match
    [of "''9999''" "example_app\<lparr>current_video := Some ''a.mp4''\<rparr>" undefined example_world 5] f3 t2
  have g: "handle_tag_detection example_world 5 ''9999''
      (example_app\<lparr>current_video := Some ''a.mp4''\<rparr>) = example_app\<lparr>current_video := Some ''a.mp4''\<rparr>"
    by simp
  have n: "current_video example_app = None" by (simp add: example_app_def)
  from a b c d d' g n show ?thesis by simp
qed

lemma on_progress_change_controls:
  "controls_visible (on_progress_change v app) = controls_visible app \<and>
   overlay_opacity (on_progress_change v app) = overlay_opacity app \<and>
   last_touch_time (on_progress_change v app) = last_touch_time app \<and>
   controls_timeout (on_progress_change v app) = controls_timeout app"
  by (simp add: on_progress_change_def Let_def)

lemma set_progress_value_controls:
  "controls_visible (set_progress_value v app) = controls_visible app \<and>
   overlay_opacity (set_progress_value v app) = overlay_opacity app \<and>
   last_touch_time (set_progress_value v app) = last_touch_time app \<and>
   controls_timeout (set_progress_value v app) = controls_timeout app"
  by (simp add: set_progress_value_def on_progress_change_controls)

text \<open>
  What the update step does to the controls, in every session and at every clock: it
  leaves \<^verbatim>\<open>controls_visible\<close> and the opacity of the overlay as they are, and it
  raises exactly when a video is loaded, the controls are visible and the idle
  timeout has elapsed. The playback state of the player has no part in it.
\<close>

lemma update_progress_keeps_controls:
  "controls_visible (snd (update_progress t app)) = controls_visible app \<and>
   overlay_opacity (snd (update_progress t app)) = overlay_opacity app \<and>
   fst (update_progress t app) =
     (if truthy (current_video app) \<and> controls_visible app \<and>
         t - last_touch_time app > controls_timeout app
      then Some (no_attribute ''VideoPlayer'' ''player'')
      else None)"
  by (simp add: update_progress_def hide_controls_def Let_def set_progress_value_controls)

lemma no_attribute_player:
  "no_attribute ''VideoPlayer'' ''player'' =
     AttributeError
       ([CHR 0x27] @ ''VideoPlayer'' @ [CHR 0x27] @ '' object has no attribute '' @
        [CHR 0x27] @ ''player'' @ [CHR 0x27])"
  by (simp add: no_attribute_def quoted_def)

text \<open>
  Claim C3. The claim lets the step hide the controls when they are visible, the idle
  timeout has elapsed and playback is active, and never while playback is paused. The
  code does not do this. In the session below a video is loaded and playing, the
  controls are visible, and at clock 10 the last touch is 5 seconds back with a
  timeout of 3: the step calls \<^verbatim>\<open>hide_controls\<close>, whose test reads
  \<^verbatim>\<open>self.video_player.player\<close>, an attribute that \<^verbatim>\<open>VideoPlayer\<close> does not have. The
  step ends in \<^verbatim>\<open>AttributeError\<close> and the controls stay visible. With the player
  paused the step ends in the same way, so playback decides nothing; and the test as
  it is written, \<^verbatim>\<open>not ... is_playing()\<close>, asks for a player that is not playing,
  the opposite of the claim.
\<close>

theorem update_progress_raises_instead_of_hiding:
  "truthy (current_video (example_watching True)) \<and>
   controls_visible (example_watching True) \<and>
   10 - last_touch_time (example_watching True) > controls_timeout (example_watching True) \<and>
   is_playing (video_player (example_watching True)) \<and>
   update_progress 10 (example_watching True) =
     (Some (no_attribute ''VideoPlayer'' ''player''), example_watching True) \<and>
   controls_visible (snd (update_progress 10 (example_watching True))) \<and>
   \<not> is_playing (video_player (example_watching False)) \<and>
   update_progress 10 (example_watching False) =
     (Some (no_attribute ''VideoPlayer'' ''player''), example_watching False)"
  by (simp add: update_progress_def hide_controls_def Let_def set_progress_value_def
      example_watching_def example_app_def example_player_def example_pipeline_def
      get_position_def get_duration_def gst_SECOND_def)

section \<open>Properties of saving and loading the playback state\<close>

lemma gst_Inr: "gst c p = Inr p1 \<Longrightarrow> p1 = p\<lparr>calls := calls p @ [c]\<rparr> \<and> raising p c = None"
  by (auto simp add: gst_def split: option.splits)















end
